theory Spec2Isabelle
  imports Main "HOL-Library.Word"
begin

unbundle bit_operations_syntax

section \<open>Platform and memory\<close>

text \<open>
  The allocator of \<^verbatim>\<open>arena.h\<close> and the string buffer of \<^verbatim>\<open>str.h\<close>, embedded for a
  64-bit POSIX target (LP64): \<^verbatim>\<open>uint64_t\<close>, \<^verbatim>\<open>size_t\<close> and pointers are 64-bit words
  whose arithmetic wraps, \<^verbatim>\<open>NULL\<close> is the address 0, \<^verbatim>\<open>SIZE_MAX\<close> is \<open>2^64 - 1\<close>,
  \<^verbatim>\<open>sizeof(Arena)\<close> is 24 (a pointer and two \<^verbatim>\<open>uint64_t\<close>) and \<^verbatim>\<open>sizeof(Str)\<close> is 8
  (a \<^verbatim>\<open>size_t\<close> before the flexible array member).
\<close>

type_synonym u64 = "64 word"
type_synonym addr = "64 word"
type_synonym byte = "8 word"

definition NULL :: addr where
  "NULL = 0"

definition SIZE_MAX :: u64 where
  "SIZE_MAX = - 1"

definition sizeof_Arena :: u64 where
  "sizeof_Arena = 24"

definition sizeof_Str :: u64 where
  "sizeof_Str = 8"

text \<open>
  \<^verbatim>\<open>typedef struct Arena { void *base; uint64_t size; uint64_t pos; } Arena;\<close>
  The field \<^verbatim>\<open>size\<close> is named \<open>size_arena\<close> here, \<open>size\<close> being a constant of HOL.
\<close>

record Arena =
  base :: addr
  size_arena :: u64
  pos :: u64

text \<open>
  The heap. An \<^verbatim>\<open>Arena *\<close> is the address of an arena header; \<open>arenas\<close> gives the header
  stored at an address, and is undefined at \<^verbatim>\<open>NULL\<close> and at every address where no
  arena lives. \<open>mem\<close> gives the byte stored at each mapped data address and is undefined
  at an unmapped one. The header, which the code keeps in the first \<^verbatim>\<open>sizeof(Arena)\<close>
  bytes of the mapping, is held apart from the data bytes: the operations reach it
  through the \<^verbatim>\<open>Arena *\<close> only, and the byte writes they make start at or after the
  base of their region.
\<close>

record heap =
  arenas :: "addr \<rightharpoonup> Arena"
  mem :: "addr \<rightharpoonup> byte"

text \<open>
  What C leaves undefined and a POSIX system answers with a signal is a value of the
  model: dereferencing an \<^verbatim>\<open>Arena *\<close> that points to no arena, and reading or writing
  a byte outside every mapping.
\<close>

datatype fault = InvalidArena | SegFault

section \<open>The bump allocator (arena.h)\<close>

text \<open>
  \<^verbatim>\<open>ArenaPush\<close>, lines 88-102. The bound check \<^verbatim>\<open>arena->pos + size > arena->size\<close> is
  a comparison of \<^verbatim>\<open>uint64_t\<close> values, so the sum wraps. The pointer returned is
  \<^verbatim>\<open>arena->base + arena->pos\<close>, read after \<^verbatim>\<open>arena->pos += size\<close>; the local
  \<^verbatim>\<open>current\<close> that holds the old position is never used.
\<close>

definition ArenaPush :: "heap \<Rightarrow> addr \<Rightarrow> u64 \<Rightarrow> fault + (addr \<times> heap)" where
  "ArenaPush h arena sz =
     (if arena = NULL \<or> sz = 0 then Inr (NULL, h)
      else case arenas h arena of
        None \<Rightarrow> Inl InvalidArena
      | Some a \<Rightarrow>
          if pos a + sz > size_arena a then Inr (NULL, h)
          else let a' = a\<lparr>pos := pos a + sz\<rparr>
               in Inr (base a' + pos a', h\<lparr>arenas := (arenas h)(arena \<mapsto> a')\<rparr>))"

text \<open>\<^verbatim>\<open>ArenaPop\<close>, lines 125-134: no \<^verbatim>\<open>NULL\<close> check, the status is 0 or -1.\<close>

definition ArenaPop :: "heap \<Rightarrow> addr \<Rightarrow> u64 \<Rightarrow> fault + (int \<times> heap)" where
  "ArenaPop h arena sz =
     (case arenas h arena of
        None \<Rightarrow> Inl InvalidArena
      | Some a \<Rightarrow>
          if sz > pos a then Inr (- 1, h)
          else Inr (0, h\<lparr>arenas := (arenas h)(arena \<mapsto> a\<lparr>pos := pos a - sz\<rparr>)\<rparr>))"

text \<open>\<^verbatim>\<open>ArenaSetPosBack\<close>, lines 141-149.\<close>

definition ArenaSetPosBack :: "heap \<Rightarrow> addr \<Rightarrow> u64 \<Rightarrow> fault + (int \<times> heap)" where
  "ArenaSetPosBack h arena p =
     (case arenas h arena of
        None \<Rightarrow> Inl InvalidArena
      | Some a \<Rightarrow>
          if p > pos a then Inr (- 1, h)
          else Inr (0, h\<lparr>arenas := (arenas h)(arena \<mapsto> a\<lparr>pos := p\<rparr>)\<rparr>))"

text \<open>\<^verbatim>\<open>ArenaClear\<close>, lines 152-154.\<close>

definition ArenaClear :: "heap \<Rightarrow> addr \<Rightarrow> fault + heap" where
  "ArenaClear h arena =
     (case arenas h arena of
        None \<Rightarrow> Inl InvalidArena
      | Some a \<Rightarrow> Inr (h\<lparr>arenas := (arenas h)(arena \<mapsto> a\<lparr>pos := 0\<rparr>)\<rparr>))"

text \<open>The accessors, lines 157-167.\<close>

definition ArenaGetPos :: "heap \<Rightarrow> addr \<Rightarrow> fault + u64" where
  "ArenaGetPos h arena =
     (case arenas h arena of None \<Rightarrow> Inl InvalidArena | Some a \<Rightarrow> Inr (pos a))"

definition ArenaGetSize :: "heap \<Rightarrow> addr \<Rightarrow> fault + u64" where
  "ArenaGetSize h arena =
     (case arenas h arena of None \<Rightarrow> Inl InvalidArena | Some a \<Rightarrow> Inr (size_arena a))"

definition ArenaGetBase :: "heap \<Rightarrow> addr \<Rightarrow> fault + addr" where
  "ArenaGetBase h arena =
     (case arenas h arena of None \<Rightarrow> Inl InvalidArena | Some a \<Rightarrow> Inr (base a))"

section \<open>Raw memory (string.h)\<close>

text \<open>
  Writing a run of bytes from an address on, the common core of \<^verbatim>\<open>memset\<close> and
  \<^verbatim>\<open>memcpy\<close>: a write to an unmapped address is a fault. The address wraps
  as pointer arithmetic on a 64-bit machine does.
\<close>

fun store_bytes :: "(addr \<rightharpoonup> byte) \<Rightarrow> addr \<Rightarrow> byte list \<Rightarrow> fault + (addr \<rightharpoonup> byte)" where
  "store_bytes m p [] = Inr m"
| "store_bytes m p (b # bs) =
     (case m p of
        None \<Rightarrow> Inl SegFault
      | Some old \<Rightarrow> store_bytes (m(p \<mapsto> b)) (p + 1) bs)"

fun load_bytes :: "(addr \<rightharpoonup> byte) \<Rightarrow> addr \<Rightarrow> nat \<Rightarrow> fault + byte list" where
  "load_bytes m p 0 = Inr []"
| "load_bytes m p (Suc n) =
     (case m p of
        None \<Rightarrow> Inl SegFault
      | Some b \<Rightarrow>
          (case load_bytes m (p + 1) n of
             Inl f \<Rightarrow> Inl f
           | Inr bs \<Rightarrow> Inr (b # bs)))"

definition memset :: "(addr \<rightharpoonup> byte) \<Rightarrow> addr \<Rightarrow> byte \<Rightarrow> u64 \<Rightarrow> fault + (addr \<rightharpoonup> byte)" where
  "memset m p c n = store_bytes m p (replicate (unat n) c)"

text \<open>The source of \<^verbatim>\<open>memcpy\<close> is given by its contents, the bytes found at \<^verbatim>\<open>src\<close>.\<close>

definition memcpy :: "(addr \<rightharpoonup> byte) \<Rightarrow> addr \<Rightarrow> byte list \<Rightarrow> u64 \<Rightarrow> fault + (addr \<rightharpoonup> byte)" where
  "memcpy m dst src n = store_bytes m dst (take (unat n) src)"

text \<open>
  \<^verbatim>\<open>strlen\<close>: the number of bytes before the first zero byte. The argument is the
  contents found at the pointer; the end of the list stands for the terminator when the
  list holds no zero byte.
\<close>

definition strlen :: "byte list \<Rightarrow> u64" where
  "strlen s = word_of_nat (length (takeWhile (\<lambda>b. b \<noteq> 0) s))"

text \<open>A \<^verbatim>\<open>size_t\<close> in memory: eight bytes, the least significant first.\<close>

definition bytes_of_u64 :: "u64 \<Rightarrow> byte list" where
  "bytes_of_u64 w =
     [ucast w, ucast (drop_bit 8 w), ucast (drop_bit 16 w), ucast (drop_bit 24 w),
      ucast (drop_bit 32 w), ucast (drop_bit 40 w), ucast (drop_bit 48 w),
      ucast (drop_bit 56 w)]"

definition u64_of_bytes :: "byte list \<Rightarrow> u64" where
  "u64_of_bytes bs = foldr (\<lambda>b acc. ucast b OR push_bit 8 acc) bs 0"

section \<open>Zero-initialising push (arena.h)\<close>

text \<open>
  \<^verbatim>\<open>ArenaPushZeroInit\<close>, lines 109-122: \<^verbatim>\<open>memset(ptr, 0, size)\<close> on the pointer that
  \<^verbatim>\<open>ArenaPush\<close> returned.
\<close>

definition ArenaPushZeroInit :: "heap \<Rightarrow> addr \<Rightarrow> u64 \<Rightarrow> fault + (addr \<times> heap)" where
  "ArenaPushZeroInit h arena sz =
     (case ArenaPush h arena sz of
        Inl f \<Rightarrow> Inl f
      | Inr (ptr, h') \<Rightarrow>
          if ptr = 0 then Inr (NULL, h')
          else (case memset (mem h') ptr 0 sz of
                  Inl f \<Rightarrow> Inl f
                | Inr m' \<Rightarrow> Inr (ptr, h'\<lparr>mem := m'\<rparr>)))"

section \<open>Scratch checkpoints (arena.h)\<close>

text \<open>
  \<^verbatim>\<open>typedef struct ArenaScratch { Arena *arena; uint64_t pos; } ArenaTemp;\<close>
  with \<^verbatim>\<open>ArenaScratchBegin\<close> (lines 205-207) and \<^verbatim>\<open>ArenaScratchEnd\<close> (lines 209-211).
\<close>

record ArenaTemp =
  arena_temp :: addr
  pos_temp :: u64

definition ArenaScratchBegin :: "heap \<Rightarrow> addr \<Rightarrow> fault + ArenaTemp" where
  "ArenaScratchBegin h arena =
     (case arenas h arena of
        None \<Rightarrow> Inl InvalidArena
      | Some a \<Rightarrow> Inr \<lparr>arena_temp = arena, pos_temp = pos a\<rparr>)"

definition ArenaScratchEnd :: "heap \<Rightarrow> ArenaTemp \<Rightarrow> fault + heap" where
  "ArenaScratchEnd h temp =
     (if arena_temp temp \<noteq> NULL then
        (case arenas h (arena_temp temp) of
           None \<Rightarrow> Inl InvalidArena
         | Some a \<Rightarrow>
             Inr (h\<lparr>arenas := (arenas h)(arena_temp temp \<mapsto> a\<lparr>pos := pos_temp temp\<rparr>)\<rparr>))
      else Inr h)"

section \<open>Reservation (arena.h)\<close>

text \<open>
  The operating system as \<^verbatim>\<open>ArenaAlloc\<close> sees it: the answer of
  \<^verbatim>\<open>sysconf(_SC_PAGESIZE)\<close>, a \<^verbatim>\<open>long\<close> read as a 64-bit word (so -1 is the word of all
  ones), and the answer of an anonymous private \<^verbatim>\<open>mmap\<close> of a given length, \<open>None\<close>
  for \<^verbatim>\<open>MAP_FAILED\<close>. POSIX makes \<^verbatim>\<open>mmap\<close> fail with \<^verbatim>\<open>EINVAL\<close> when the length is 0.
  Each call is recorded, so that a return before any call can be told from a failure of
  the system.
\<close>

datatype syscall = Sysconf_PAGESIZE | Mmap u64

record os =
  sysconf_PAGESIZE :: u64
  mmap_anon :: "u64 \<Rightarrow> addr option"

definition mmap :: "os \<Rightarrow> u64 \<Rightarrow> addr option" where
  "mmap sys len = (if len = 0 then None else mmap_anon sys len)"

text \<open>
  \<^verbatim>\<open>ArenaAlloc\<close>, lines 44-73. The new mapping holds the header at \<^verbatim>\<open>mem\<close> and zero
  bytes from \<^verbatim>\<open>mem + sizeof(Arena)\<close> up to \<^verbatim>\<open>mem + total_size\<close>.
\<close>

definition ArenaAlloc :: "os \<Rightarrow> heap \<Rightarrow> u64 \<Rightarrow> (addr \<times> heap) \<times> syscall list" where
  "ArenaAlloc sys h sz =
     (if sz = 0 \<or> sz > SIZE_MAX - sizeof_Arena then ((NULL, h), [])
      else let page_size = sysconf_PAGESIZE sys in
        if page_size = - 1 then ((NULL, h), [Sysconf_PAGESIZE])
        else let total_size = (sz + sizeof_Arena + page_size - 1) AND NOT (page_size - 1) in
          (case mmap sys total_size of
             None \<Rightarrow> ((NULL, h), [Sysconf_PAGESIZE, Mmap total_size])
           | Some m \<Rightarrow>
               let a = \<lparr>base = m + sizeof_Arena,
                        size_arena = total_size - sizeof_Arena,
                        pos = 0\<rparr>
               in ((m, \<lparr>arenas = (arenas h)(m \<mapsto> a),
                        mem = (\<lambda>x. if x - base a < size_arena a then Some 0 else mem h x)\<rparr>),
                   [Sysconf_PAGESIZE, Mmap total_size])))"

section \<open>The string buffer (str.h)\<close>

text \<open>
  \<^verbatim>\<open>typedef struct Str { size_t size; char string[]; } Str;\<close> lives in the arena's
  memory: the length at the record's address, the payload \<^verbatim>\<open>sizeof(Str)\<close> bytes later.
\<close>

definition store_Str_size :: "(addr \<rightharpoonup> byte) \<Rightarrow> addr \<Rightarrow> u64 \<Rightarrow> fault + (addr \<rightharpoonup> byte)" where
  "store_Str_size m str len = store_bytes m str (bytes_of_u64 len)"

definition load_Str_size :: "(addr \<rightharpoonup> byte) \<Rightarrow> addr \<Rightarrow> fault + u64" where
  "load_Str_size m str =
     (case load_bytes m str 8 of Inl f \<Rightarrow> Inl f | Inr bs \<Rightarrow> Inr (u64_of_bytes bs))"

definition load_Str_string :: "(addr \<rightharpoonup> byte) \<Rightarrow> addr \<Rightarrow> u64 \<Rightarrow> fault + byte list" where
  "load_Str_string m str len = load_bytes m (str + sizeof_Str) (unat len)"

text \<open>
  \<^verbatim>\<open>PushStr\<close>, lines 19-36. \<open>inStr\<close> is \<open>None\<close> for a \<^verbatim>\<open>NULL\<close> pointer, otherwise the
  bytes found at the pointer.
\<close>

definition PushStr :: "heap \<Rightarrow> addr \<Rightarrow> byte list option \<Rightarrow> fault + (addr \<times> heap)" where
  "PushStr h arena inStr =
     (case inStr of
        None \<Rightarrow> Inr (NULL, h)
      | Some s \<Rightarrow>
          if arena = NULL then Inr (NULL, h)
          else let len = strlen s in
            if len = SIZE_MAX then Inr (NULL, h)
            else (case ArenaPush h arena (sizeof_Str + len) of
                    Inl f \<Rightarrow> Inl f
                  | Inr (res, h') \<Rightarrow>
                      if res = NULL then Inr (NULL, h')
                      else (case store_Str_size (mem h') res len of
                              Inl f \<Rightarrow> Inl f
                            | Inr m1 \<Rightarrow>
                                (case memcpy m1 (res + sizeof_Str) s len of
                                   Inl f \<Rightarrow> Inl f
                                 | Inr m2 \<Rightarrow> Inr (res, h'\<lparr>mem := m2\<rparr>)))))"

text \<open>\<^verbatim>\<open>PopStr\<close>, lines 39-41: the status of \<^verbatim>\<open>ArenaPop\<close> is dropped.\<close>

definition PopStr :: "heap \<Rightarrow> addr \<Rightarrow> addr \<Rightarrow> fault + heap" where
  "PopStr h arena str =
     (case load_Str_size (mem h) str of
        Inl f \<Rightarrow> Inl f
      | Inr n \<Rightarrow>
          (case ArenaPop h arena (sizeof_Str + n) of
             Inl f \<Rightarrow> Inl f
           | Inr (status, h') \<Rightarrow> Inr h'))"

section \<open>Sequences of operations on one region\<close>

text \<open>
  A client's calls on the region at address \<open>p\<close>, one constructor for each operation
  that moves the cursor. The checkpoints taken by \<open>Begin\<close> are kept in the order they
  were taken; \<open>End i\<close> ends the \<open>i\<close>-th of them (any of them, any number of times, which
  the code allows), and does nothing when fewer were taken.
\<close>

datatype op = Push u64 | PushZeroed u64 | Pop u64 | SetPosition u64 | Clear | Begin | End nat

fun step :: "addr \<Rightarrow> heap \<times> ArenaTemp list \<Rightarrow> op \<Rightarrow> fault + (heap \<times> ArenaTemp list)" where
  "step p (h, ts) (Push s) =
     (case ArenaPush h p s of Inl f \<Rightarrow> Inl f | Inr (ptr, h') \<Rightarrow> Inr (h', ts))"
| "step p (h, ts) (PushZeroed s) =
     (case ArenaPushZeroInit h p s of Inl f \<Rightarrow> Inl f | Inr (ptr, h') \<Rightarrow> Inr (h', ts))"
| "step p (h, ts) (Pop s) =
     (case ArenaPop h p s of Inl f \<Rightarrow> Inl f | Inr (status, h') \<Rightarrow> Inr (h', ts))"
| "step p (h, ts) (SetPosition s) =
     (case ArenaSetPosBack h p s of Inl f \<Rightarrow> Inl f | Inr (status, h') \<Rightarrow> Inr (h', ts))"
| "step p (h, ts) Clear =
     (case ArenaClear h p of Inl f \<Rightarrow> Inl f | Inr h' \<Rightarrow> Inr (h', ts))"
| "step p (h, ts) Begin =
     (case ArenaScratchBegin h p of Inl f \<Rightarrow> Inl f | Inr t \<Rightarrow> Inr (h, ts @ [t]))"
| "step p (h, ts) (End i) =
     (if i < length ts then
        (case ArenaScratchEnd h (ts ! i) of Inl f \<Rightarrow> Inl f | Inr h' \<Rightarrow> Inr (h', ts))
      else Inr (h, ts))"

fun run :: "addr \<Rightarrow> heap \<times> ArenaTemp list \<Rightarrow> op list \<Rightarrow> fault + (heap \<times> ArenaTemp list)" where
  "run p st [] = Inr st"
| "run p st (x # xs) =
     (case step p st x of Inl f \<Rightarrow> Inl f | Inr st' \<Rightarrow> run p st' xs)"

text \<open>The cursor and the capacity of the region at \<open>p\<close>, for stating properties.\<close>

definition position :: "heap \<Rightarrow> addr \<Rightarrow> nat" where
  "position h p = (case arenas h p of None \<Rightarrow> 0 | Some a \<Rightarrow> unat (pos a))"

definition capacity :: "heap \<Rightarrow> addr \<Rightarrow> nat" where
  "capacity h p = (case arenas h p of None \<Rightarrow> 0 | Some a \<Rightarrow> unat (size_arena a))"

section \<open>The invariant of a region\<close>

text \<open>
  What every operation on the region at \<open>p\<close> keeps, relative to the header \<open>a0\<close> the
  region started with: base and capacity are those of \<open>a0\<close>, the cursor is within the
  capacity, and every checkpoint taken so far belongs to this region and holds a cursor
  within the capacity.
\<close>

definition region_inv :: "addr \<Rightarrow> Arena \<Rightarrow> heap \<times> ArenaTemp list \<Rightarrow> bool" where
  "region_inv p a0 st =
     (case arenas (fst st) p of
        None \<Rightarrow> False
      | Some a \<Rightarrow>
          base a = base a0 \<and> size_arena a = size_arena a0 \<and> pos a \<le> size_arena a0 \<and>
          list_all (\<lambda>t. arena_temp t = p \<and> pos_temp t \<le> size_arena a0) (snd st))"

section \<open>A concrete region\<close>

text \<open>
  The region that \<^verbatim>\<open>ArenaAlloc(64)\<close> sets up on a system with 4096-byte pages when the
  mapping lands at address 4096: header at 4096, base 4120, capacity 4072. \<open>region_4k n\<close>
  is that region with its cursor at \<open>n\<close> and every data byte holding the stale value
  255, as after earlier use (neither \<^verbatim>\<open>ArenaPop\<close> nor \<^verbatim>\<open>ArenaClear\<close> wipes memory);
  nothing else is mapped.
\<close>

definition region_4k :: "u64 \<Rightarrow> heap" where
  "region_4k n =
     \<lparr>arenas = [4096 \<mapsto> \<lparr>base = 4120, size_arena = 4072, pos = n\<rparr>],
      mem = (\<lambda>x. if x - 4120 < 4072 then Some 255 else None)\<rparr>"

text \<open>
  A system with 4096-byte pages that places every mapping at address 4096, and the heap
  of a process that has reserved nothing yet.
\<close>

definition os_4k :: os where
  "os_4k = \<lparr>sysconf_PAGESIZE = 4096, mmap_anon = (\<lambda>len. Some 4096)\<rparr>"

definition heap_empty :: heap where
  "heap_empty = \<lparr>arenas = Map.empty, mem = Map.empty\<rparr>"

text \<open>The bytes of \<^verbatim>\<open>"hello"\<close>, the terminator included.\<close>

definition hello :: "byte list" where
  "hello = [104, 101, 108, 108, 111, 0]"

section \<open>Push\<close>

text \<open>What a call of \<^verbatim>\<open>ArenaPush\<close> that returns a pointer has done.\<close>

lemma ArenaPush_result:
  assumes "arenas h p = Some a" and "ArenaPush h p s = Inr (r, h')" and "r \<noteq> NULL"
  shows "r = base a + (pos a + s) \<and> h' = h\<lparr>arenas := (arenas h)(p \<mapsto> a\<lparr>pos := pos a + s\<rparr>)\<rparr>"
  using assms by (auto simp: ArenaPush_def Let_def split: if_splits)

text \<open>
  C1. The claim is that the first successful push after a clear returns the region's
  base. On the 4K region with its cursor at 100, \<^verbatim>\<open>ArenaClear\<close> sets the cursor to 0
  and \<^verbatim>\<open>ArenaPush\<close> of 16 bytes then returns 4136, the base 4120 plus the 16 bytes
  just carved: the address after the block, not its start.
\<close>

theorem ArenaPush_after_ArenaClear:
  "ArenaClear (region_4k 100) 4096 = Inr (region_4k 0) \<and>
   ArenaPush (region_4k 0) 4096 16 = Inr (4136, region_4k 16) \<and>
   ArenaGetBase (region_4k 16) 4096 = Inr 4120"
  by (simp add: region_4k_def ArenaClear_def ArenaPush_def ArenaGetBase_def NULL_def)

text \<open>On no region does a successful push after a clear return the base.\<close>

lemma ArenaPush_after_ArenaClear_not_base:
  assumes "arenas h p = Some a" and "ArenaClear h p = Inr h1"
    and "ArenaPush h1 p s = Inr (r, h2)" and "r \<noteq> NULL"
  shows "r = base a + s \<and> r \<noteq> base a"
proof -
  from assms(1,2) have a1: "arenas h1 p = Some (a\<lparr>pos := 0\<rparr>)"
    by (auto simp: ArenaClear_def)
  from ArenaPush_result [OF a1 assms(3,4)] have r: "r = base a + s" by simp
  from assms(3,4) have "s \<noteq> 0"
    by (auto simp: ArenaPush_def split: if_splits)
  with r show ?thesis by simp
qed

text \<open>The part of the capacity check that holds: a sum that does not wrap and exceeds the
  capacity makes \<^verbatim>\<open>ArenaPush\<close> return \<^verbatim>\<open>NULL\<close> with the heap unchanged.\<close>

lemma ArenaPush_exhausted:
  assumes "arenas h p = Some a"
    and "unat (pos a) + unat s < 2 ^ 64"
    and "unat (size_arena a) < unat (pos a) + unat s"
  shows "ArenaPush h p s = Inr (NULL, h)"
proof -
  from assms(2) have "unat (pos a + s) = unat (pos a) + unat s"
    by (simp add: unat_word_ariths)
  with assms(3) have "size_arena a < pos a + s"
    by (simp add: word_less_nat_alt)
  with assms(1) show ?thesis
    by (simp add: ArenaPush_def)
qed

text \<open>
  C3. The claim is that a push of more than capacity minus position fails and leaves
  the position unchanged. On the 4K region with its cursor at 16, 4056 bytes remain;
  \<^verbatim>\<open>ArenaPush\<close> of \<open>2^64 - 8\<close> bytes passes the check, because \<open>16 + (2^64 - 8)\<close> wraps
  to 8, returns the pointer 4128 and moves the cursor back from 16 to 8.
\<close>

theorem ArenaPush_wraps:
  "ArenaGetPos (region_4k 16) 4096 = Inr 16 \<and>
   ArenaGetSize (region_4k 16) 4096 = Inr 4072 \<and>
   unat (4072 :: u64) - unat (16 :: u64) < unat (- 8 :: u64) \<and>
   ArenaPush (region_4k 16) 4096 (- 8) = Inr (4128, region_4k 8)"
  by (simp add: region_4k_def ArenaGetPos_def ArenaGetSize_def ArenaPush_def NULL_def)

text \<open>
  C4, as stated, fails at size 0: 0 is at most capacity minus position on every region,
  and \<^verbatim>\<open>ArenaPush\<close> of 0 bytes returns \<^verbatim>\<open>NULL\<close>, by the guard on its first line.
\<close>

theorem ArenaPush_zero_size:
  "unat (0 :: u64) \<le> capacity (region_4k 0) 4096 - position (region_4k 0) 4096 \<and>
   ArenaPush (region_4k 0) 4096 0 = Inr (NULL, region_4k 0)"
  by (simp add: ArenaPush_def)

text \<open>
  C4, amended. For a live region whose block lies inside the address space and every
  size \<open>s\<close> with \<open>0 < s \<le> capacity - position\<close>, \<^verbatim>\<open>ArenaPush\<close> returns a pointer other
  than \<^verbatim>\<open>NULL\<close>, the new position is the old one plus \<open>s\<close> in exact arithmetic, and the
  capacity is unchanged.
\<close>

theorem ArenaPush_succeeds:
  assumes a: "arenas h p = Some a" and p: "p \<noteq> NULL"
    and space: "unat (base a) + unat (size_arena a) < 2 ^ 64"
    and s0: "0 < s" and fits: "unat s \<le> unat (size_arena a) - unat (pos a)"
  shows "\<exists>r h'. ArenaPush h p s = Inr (r, h') \<and> r \<noteq> NULL \<and>
           ArenaGetPos h' p = Inr (pos a + s) \<and> ArenaGetSize h' p = Inr (size_arena a) \<and>
           unat (pos a + s) = unat (pos a) + unat s"
proof -
  from s0 have us: "0 < unat s" by (simp add: word_less_nat_alt)
  with fits have sum: "unat (pos a) + unat s \<le> unat (size_arena a)" by arith
  have "unat (size_arena a) < 2 ^ 64" using unsigned_less [of "size_arena a"] by simp
  with sum have "unat (pos a) + unat s < 2 ^ 64" by arith
  then have u: "unat (pos a + s) = unat (pos a) + unat s"
    by (simp add: unat_word_ariths)
  with sum have "pos a + s \<le> size_arena a" by (simp add: word_le_nat_alt)
  then have nl: "\<not> size_arena a < pos a + s" by (simp add: not_less)
  from space sum u have "unat (base a) + unat (pos a + s) < 2 ^ 64" by arith
  then have "unat (base a + (pos a + s)) = unat (base a) + unat (pos a + s)"
    by (simp add: unat_word_ariths)
  with u us have "unat (base a + (pos a + s)) \<noteq> 0" by arith
  then have r: "base a + (pos a + s) \<noteq> NULL"
    by (auto simp: NULL_def)
  from s0 have "s \<noteq> 0" by auto
  with a p nl have "ArenaPush h p s =
      Inr (base a + (pos a + s), h\<lparr>arenas := (arenas h)(p \<mapsto> a\<lparr>pos := pos a + s\<rparr>)\<rparr>)"
    by (simp add: ArenaPush_def Let_def)
  with r u show ?thesis by (simp add: ArenaGetPos_def ArenaGetSize_def)
qed

theorem ArenaPush_succeeds_witness:
  "arenas (region_4k 10) 4096 = Some \<lparr>base = 4120, size_arena = 4072, pos = 10\<rparr> \<and>
   (4096 :: addr) \<noteq> NULL \<and>
   unat (4120 :: u64) + unat (4072 :: u64) < 2 ^ 64 \<and>
   (0 :: u64) < 4062 \<and> unat (4062 :: u64) \<le> unat (4072 :: u64) - unat (10 :: u64) \<and>
   (\<exists>r h'. ArenaPush (region_4k 10) 4096 4062 = Inr (r, h') \<and> r \<noteq> NULL \<and>
          ArenaGetPos h' 4096 = Inr (10 + 4062) \<and> ArenaGetSize h' 4096 = Inr 4072 \<and>
          unat (10 + 4062 :: u64) = unat (10 :: u64) + unat (4062 :: u64))"
  using ArenaPush_succeeds
    [of "region_4k 10" 4096 "\<lparr>base = 4120, size_arena = 4072, pos = 10\<rparr>" 4062]
  by (simp add: region_4k_def NULL_def)

section \<open>Zero-initialising push\<close>

text \<open>Unfolding a numeral count, for evaluating the memory operations.\<close>

lemma replicate_numeral:
  "replicate (numeral k) x = x # replicate (pred_numeral k) x"
  by (simp add: numeral_eq_Suc)

lemma load_bytes_numeral:
  "load_bytes m p (numeral k) =
     (case m p of
        None \<Rightarrow> Inl SegFault
      | Some b \<Rightarrow>
          (case load_bytes m (p + 1) (pred_numeral k) of
             Inl f \<Rightarrow> Inl f
           | Inr bs \<Rightarrow> Inr (b # bs)))"
  by (simp add: numeral_eq_Suc)

lemma ArenaPushZeroInit_NULL:
  "ArenaPush h p s = Inr (NULL, h') \<Longrightarrow> ArenaPushZeroInit h p s = Inr (NULL, h')"
  by (simp add: ArenaPushZeroInit_def NULL_def)

text \<open>
  C5. The claim is that \<^verbatim>\<open>ArenaPushZeroInit\<close> fails exactly when \<^verbatim>\<open>ArenaPush\<close> does
  and that on success the bytes of the newly carved block are zero. On the 4K region
  full of stale bytes with its cursor at 0, a zeroing push of 4 bytes carves the block
  4120..4123 and returns 4124; the bytes of the block still hold 255, the four bytes
  after it are zeroed. With the cursor at 4068, \<^verbatim>\<open>ArenaPush\<close> of 4 bytes succeeds and
  returns 8192, the address after the region, where \<^verbatim>\<open>memset\<close> then faults.
\<close>

theorem ArenaPushZeroInit_zeroes_past_block:
  "(case ArenaPushZeroInit (region_4k 0) 4096 4 of
      Inl f \<Rightarrow> False
    | Inr (ptr, h') \<Rightarrow>
        ptr = 4124 \<and> ArenaGetBase h' 4096 = Inr 4120 \<and> ArenaGetPos h' 4096 = Inr 4 \<and>
        map (mem h') [4120, 4121, 4122, 4123] = [Some 255, Some 255, Some 255, Some 255] \<and>
        map (mem h') [4124, 4125, 4126, 4127] = [Some 0, Some 0, Some 0, Some 0]) \<and>
   ArenaPush (region_4k 4068) 4096 4 = Inr (8192, region_4k 4072) \<and>
   ArenaPushZeroInit (region_4k 4068) 4096 4 = Inl SegFault"
  by (simp add: region_4k_def ArenaPushZeroInit_def ArenaPush_def ArenaGetBase_def
      ArenaGetPos_def memset_def NULL_def replicate_numeral)

section \<open>The string buffer\<close>

text \<open>
  C6. The claim is that, given room for header and payload, \<^verbatim>\<open>PushStr\<close> stores a record
  that can be read back and that \<^verbatim>\<open>PopStr\<close> retracts. On the 4K region with its cursor
  at 4059 exactly the 13 bytes that \<^verbatim>\<open>"hello"\<close> needs remain: \<^verbatim>\<open>ArenaPush\<close> succeeds and
  returns 8192, the address after the region, and the store of the length faults.
  With the cursor at 0 the record is written at 4133, after the 13 carved bytes, which
  keep their stale contents; read from there it holds the length 5 and the payload, and
  \<^verbatim>\<open>PopStr\<close> takes the cursor back to 0.
\<close>

theorem PushStr_writes_past_block:
  "ArenaPush (region_4k 4059) 4096 (sizeof_Str + strlen hello) = Inr (8192, region_4k 4072) \<and>
   PushStr (region_4k 4059) 4096 (Some hello) = Inl SegFault \<and>
   (case PushStr (region_4k 0) 4096 (Some hello) of
      Inl f \<Rightarrow> False
    | Inr (res, h') \<Rightarrow>
        res = 4133 \<and> ArenaGetBase h' 4096 = Inr 4120 \<and> ArenaGetPos h' 4096 = Inr 13 \<and>
        load_bytes (mem h') 4120 13 = Inr (replicate 13 255) \<and>
        load_Str_size (mem h') res = Inr 5 \<and>
        load_Str_string (mem h') res 5 = Inr [104, 101, 108, 108, 111] \<and>
        (case PopStr h' 4096 res of
           Inl f \<Rightarrow> False
         | Inr h'' \<Rightarrow> ArenaGetPos h'' 4096 = Inr 0))"
  by (simp add: region_4k_def PushStr_def PopStr_def ArenaPush_def ArenaPop_def
      ArenaGetBase_def ArenaGetPos_def strlen_def hello_def sizeof_Str_def SIZE_MAX_def
      store_Str_size_def bytes_of_u64_def memcpy_def load_Str_size_def load_Str_string_def
      u64_of_bytes_def NULL_def replicate_numeral load_bytes_numeral)

section \<open>Pop\<close>

text \<open>
  C7. \<^verbatim>\<open>ArenaPop\<close> on a live region returns -1 exactly when the size exceeds the
  cursor, and then leaves the heap as it was; otherwise it returns 0 and the cursor is
  the old one less the size, in exact arithmetic.
\<close>

theorem ArenaPop_underflow_exactly:
  assumes "arenas h p = Some a"
  shows "(ArenaPop h p s = Inr (- 1, h) \<longleftrightarrow> pos a < s) \<and>
         (ArenaPop h p s = Inr (0, h\<lparr>arenas := (arenas h)(p \<mapsto> a\<lparr>pos := pos a - s\<rparr>)\<rparr>)
            \<longleftrightarrow> s \<le> pos a) \<and>
         (s \<le> pos a \<longrightarrow> unat (pos a - s) = unat (pos a) - unat s)"
proof (intro conjI impI)
  show "ArenaPop h p s = Inr (- 1, h) \<longleftrightarrow> pos a < s"
    using assms by (auto simp: ArenaPop_def)
  show "ArenaPop h p s = Inr (0, h\<lparr>arenas := (arenas h)(p \<mapsto> a\<lparr>pos := pos a - s\<rparr>)\<rparr>)
          \<longleftrightarrow> s \<le> pos a"
    using assms by (auto simp: ArenaPop_def not_less)
  show "unat (pos a - s) = unat (pos a) - unat s" if "s \<le> pos a"
    using that by (simp add: unat_sub)
qed

text \<open>
  The run of the specification's scenario B on the 4K region: push 10, push 20, pop 20,
  and a second pop of 20 that fails with the cursor still at 10.
\<close>

theorem ArenaPop_underflow_exactly_witness:
  "arenas (region_4k 30) 4096 = Some \<lparr>base = 4120, size_arena = 4072, pos = 30\<rparr> \<and>
   arenas (region_4k 10) 4096 = Some \<lparr>base = 4120, size_arena = 4072, pos = 10\<rparr> \<and>
   ArenaPush (region_4k 0) 4096 10 = Inr (4130, region_4k 10) \<and>
   ArenaPush (region_4k 10) 4096 20 = Inr (4150, region_4k 30) \<and>
   (20 :: u64) \<le> 30 \<and>
   ArenaPop (region_4k 30) 4096 20 = Inr (0, region_4k 10) \<and>
   unat (30 - 20 :: u64) = unat (30 :: u64) - unat (20 :: u64) \<and>
   (10 :: u64) < 20 \<and>
   ArenaPop (region_4k 10) 4096 20 = Inr (- 1, region_4k 10)"
  using
    ArenaPop_underflow_exactly
      [of "region_4k 30" 4096 "\<lparr>base = 4120, size_arena = 4072, pos = 30\<rparr>" 20]
    ArenaPop_underflow_exactly
      [of "region_4k 10" 4096 "\<lparr>base = 4120, size_arena = 4072, pos = 10\<rparr>" 20]
  by (simp add: region_4k_def ArenaPush_def NULL_def)

text \<open>
  C10. \<^verbatim>\<open>ArenaPop\<close> of 0 bytes on a live region returns the success status 0 and
  leaves the heap, the cursor with it, as it was; \<^verbatim>\<open>ArenaPush\<close> of 0 bytes returns
  \<^verbatim>\<open>NULL\<close>.
\<close>

theorem ArenaPop_zero_succeeds:
  "arenas h p = Some a \<Longrightarrow>
   ArenaPop h p 0 = Inr (0, h) \<and> ArenaGetPos h p = Inr (pos a) \<and>
   ArenaPush h p 0 = Inr (NULL, h)"
  by (simp add: ArenaPop_def ArenaPush_def ArenaGetPos_def map_upd_triv)

theorem ArenaPop_zero_succeeds_witness:
  "arenas (region_4k 10) 4096 = Some \<lparr>base = 4120, size_arena = 4072, pos = 10\<rparr> \<and>
   ArenaPop (region_4k 10) 4096 0 = Inr (0, region_4k 10) \<and>
   ArenaGetPos (region_4k 10) 4096 = Inr 10 \<and>
   ArenaPush (region_4k 10) 4096 0 = Inr (NULL, region_4k 10)"
  using ArenaPop_zero_succeeds
    [of "region_4k 10" 4096 "\<lparr>base = 4120, size_arena = 4072, pos = 10\<rparr>"]
  by (simp add: region_4k_def)

section \<open>The cursor stays within the capacity\<close>

lemma ArenaPush_inv:
  assumes "region_inv p a0 (h, ts)" and "ArenaPush h p s = Inr (r, h')"
  shows "region_inv p a0 (h', ts)"
  using assms
  by (auto simp: region_inv_def ArenaPush_def Let_def not_less split: if_splits option.splits)

lemma ArenaPushZeroInit_inv:
  assumes "region_inv p a0 (h, ts)" and "ArenaPushZeroInit h p s = Inr (r, h')"
  shows "region_inv p a0 (h', ts)"
proof -
  from assms(2) obtain r1 h1 where push: "ArenaPush h p s = Inr (r1, h1)"
    and h': "arenas h' = arenas h1"
    by (auto simp: ArenaPushZeroInit_def split: sum.splits if_splits prod.splits)
  from ArenaPush_inv [OF assms(1) push] h' show ?thesis
    by (auto simp: region_inv_def split: option.splits)
qed

lemma ArenaPop_inv:
  assumes "region_inv p a0 (h, ts)" and "ArenaPop h p s = Inr (r, h')"
  shows "region_inv p a0 (h', ts)"
proof -
  have "x - s \<le> c" if "s \<le> x" "x \<le> c" for x c :: u64
    using that by (meson order_trans word_sub_le)
  with assms show ?thesis
    by (auto simp: region_inv_def ArenaPop_def not_less split: if_splits option.splits)
qed

lemma ArenaSetPosBack_inv:
  assumes "region_inv p a0 (h, ts)" and "ArenaSetPosBack h p s = Inr (r, h')"
  shows "region_inv p a0 (h', ts)"
  using assms
  by (auto simp: region_inv_def ArenaSetPosBack_def not_less split: if_splits option.splits)

lemma ArenaClear_inv:
  assumes "region_inv p a0 (h, ts)" and "ArenaClear h p = Inr h'"
  shows "region_inv p a0 (h', ts)"
  using assms
  by (auto simp: region_inv_def ArenaClear_def split: option.splits)

lemma ArenaScratchBegin_inv:
  assumes "region_inv p a0 (h, ts)" and "ArenaScratchBegin h p = Inr t"
  shows "region_inv p a0 (h, ts @ [t])"
  using assms
  by (auto simp: region_inv_def ArenaScratchBegin_def split: option.splits)

lemma ArenaScratchEnd_inv:
  assumes "region_inv p a0 (h, ts)" and "i < length ts" and "ArenaScratchEnd h (ts ! i) = Inr h'"
  shows "region_inv p a0 (h', ts)"
proof -
  from assms(1,2) have "arena_temp (ts ! i) = p \<and> pos_temp (ts ! i) \<le> size_arena a0"
    by (auto simp: region_inv_def list_all_length split: option.splits)
  with assms(1,3) show ?thesis
    by (auto simp: region_inv_def ArenaScratchEnd_def split: option.splits if_splits)
qed

lemma step_inv:
  assumes "region_inv p a0 st" and "step p st x = Inr st'"
  shows "region_inv p a0 st'"
proof (cases st)
  case (Pair h ts)
  show ?thesis
  proof (cases x)
    case (Push s)
    with assms Pair show ?thesis
      by (auto split: sum.splits dest: ArenaPush_inv)
  next
    case (PushZeroed s)
    with assms Pair show ?thesis
      by (auto split: sum.splits dest: ArenaPushZeroInit_inv)
  next
    case (Pop s)
    with assms Pair show ?thesis
      by (auto split: sum.splits dest: ArenaPop_inv)
  next
    case (SetPosition s)
    with assms Pair show ?thesis
      by (auto split: sum.splits dest: ArenaSetPosBack_inv)
  next
    case Clear
    with assms Pair show ?thesis
      by (auto split: sum.splits dest: ArenaClear_inv)
  next
    case Begin
    with assms Pair show ?thesis
      by (auto split: sum.splits dest: ArenaScratchBegin_inv)
  next
    case (End i)
    with assms Pair show ?thesis
      by (auto split: sum.splits if_splits dest: ArenaScratchEnd_inv)
  qed
qed

lemma run_inv:
  "region_inv p a0 st \<Longrightarrow> run p st ops = Inr st' \<Longrightarrow> region_inv p a0 st'"
proof (induction ops arbitrary: st)
  case Nil
  then show ?case by simp
next
  case (Cons x xs)
  from Cons.prems(2) obtain st1 where s1: "step p st x = Inr st1" and r: "run p st1 xs = Inr st'"
    by (auto split: sum.splits)
  from Cons.IH [OF step_inv [OF Cons.prems(1) s1] r] show ?case .
qed

text \<open>
  C2. From a live region whose cursor is within its capacity, every sequence of pushes,
  zeroing pushes, pops, position resets, clears and checkpoint begins and ends that runs
  without a fault leaves the cursor between 0 and the capacity, and the capacity what it
  was. A state reached in the middle of a sequence is the state after a prefix, so the
  bound holds at all times.
\<close>

theorem cursor_within_capacity:
  assumes "arenas h p = Some a" and "pos a \<le> size_arena a"
    and "run p (h, []) ops = Inr (h', ts)"
  shows "\<exists>a'. arenas h' p = Some a' \<and> 0 \<le> unat (pos a') \<and> unat (pos a') \<le> unat (size_arena a') \<and>
           size_arena a' = size_arena a"
proof -
  from assms(1,2) have "region_inv p a (h, [])"
    by (simp add: region_inv_def)
  from run_inv [OF this assms(3)] show ?thesis
    by (auto simp: region_inv_def word_le_nat_alt split: option.splits)
qed

theorem cursor_within_capacity_witness:
  "arenas (region_4k 0) 4096 = Some \<lparr>base = 4120, size_arena = 4072, pos = 0\<rparr> \<and>
   (0 :: u64) \<le> 4072 \<and>
   run 4096 (region_4k 0, [])
     [Push 10, Push 20, Pop 20, Pop 20, Begin, Push 5000, Push 7, SetPosition 12, End 0,
      Clear, Push 4072, End 0] =
     Inr (region_4k 10, [\<lparr>arena_temp = 4096, pos_temp = 10\<rparr>]) \<and>
   (\<exists>a'. arenas (region_4k 10) 4096 = Some a' \<and> 0 \<le> unat (pos a') \<and>
         unat (pos a') \<le> unat (size_arena a') \<and> size_arena a' = 4072)"
proof -
  have r: "run 4096 (region_4k 0, [])
     [Push 10, Push 20, Pop 20, Pop 20, Begin, Push 5000, Push 7, SetPosition 12, End 0,
      Clear, Push 4072, End 0] =
     Inr (region_4k 10, [\<lparr>arena_temp = 4096, pos_temp = 10\<rparr>])"
    by (simp add: region_4k_def ArenaPush_def ArenaPop_def ArenaSetPosBack_def
        ArenaClear_def ArenaScratchBegin_def ArenaScratchEnd_def NULL_def)
  from cursor_within_capacity
    [of "region_4k 0" 4096 "\<lparr>base = 4120, size_arena = 4072, pos = 0\<rparr>" _
      "region_4k 10" "[\<lparr>arena_temp = 4096, pos_temp = 10\<rparr>]", OF _ _ r] r
  show ?thesis by (simp add: region_4k_def)
qed

section \<open>Checkpoints\<close>

lemma step_keeps_arena:
  assumes "arenas (fst st) p \<noteq> None" and "step q st x = Inr st'"
  shows "arenas (fst st') p \<noteq> None"
proof (cases st)
  case (Pair h ts)
  with assms show ?thesis
    by (cases x)
      (auto simp: ArenaPush_def ArenaPushZeroInit_def ArenaPop_def ArenaSetPosBack_def
          ArenaClear_def ArenaScratchBegin_def ArenaScratchEnd_def Let_def
        split: sum.splits if_splits option.splits prod.splits)
qed

lemma run_keeps_arena:
  "arenas (fst st) p \<noteq> None \<Longrightarrow> run q st ops = Inr st' \<Longrightarrow> arenas (fst st') p \<noteq> None"
proof (induction ops arbitrary: st)
  case Nil
  then show ?case by simp
next
  case (Cons x xs)
  from Cons.prems(2) obtain st1 where s1: "step q st x = Inr st1" and r: "run q st1 xs = Inr st'"
    by (auto split: sum.splits)
  from Cons.IH [OF step_keeps_arena [OF Cons.prems(1) s1] r] show ?case .
qed

text \<open>
  C9. A checkpoint taken by \<^verbatim>\<open>ArenaScratchBegin\<close> on a live region, then any sequence
  of operations on that region that runs without a fault (whatever checkpoints were
  taken before or are taken and ended in between), then \<^verbatim>\<open>ArenaScratchEnd\<close> on the
  checkpoint: the end succeeds and the cursor is the one the region had at the begin.
\<close>

theorem ArenaScratchEnd_restores:
  assumes "arenas h p = Some a" and "p \<noteq> NULL"
    and "ArenaScratchBegin h p = Inr t"
    and "run p (h, ts) ops = Inr (h', ts')"
  shows "\<exists>h''. ArenaScratchEnd h' t = Inr h'' \<and> ArenaGetPos h'' p = Inr (pos a)"
proof -
  from assms(1,3) have t: "t = \<lparr>arena_temp = p, pos_temp = pos a\<rparr>"
    by (simp add: ArenaScratchBegin_def)
  from run_keeps_arena [OF _ assms(4), of p] assms(1)
  obtain a' where "arenas h' p = Some a'" by auto
  with t assms(2) show ?thesis
    by (simp add: ArenaScratchEnd_def ArenaGetPos_def)
qed

theorem ArenaScratchEnd_restores_witness:
  "arenas (region_4k 10) 4096 = Some \<lparr>base = 4120, size_arena = 4072, pos = 10\<rparr> \<and>
   (4096 :: addr) \<noteq> NULL \<and>
   ArenaScratchBegin (region_4k 10) 4096 = Inr \<lparr>arena_temp = 4096, pos_temp = 10\<rparr> \<and>
   run 4096 (region_4k 10, []) [Push 20, Pop 5, Begin, Push 100, Clear, Push 3] =
     Inr (region_4k 3, [\<lparr>arena_temp = 4096, pos_temp = 25\<rparr>]) \<and>
   (\<exists>h''. ArenaScratchEnd (region_4k 3) \<lparr>arena_temp = 4096, pos_temp = 10\<rparr> = Inr h'' \<and>
          ArenaGetPos h'' 4096 = Inr 10)"
proof -
  have b: "ArenaScratchBegin (region_4k 10) 4096 = Inr \<lparr>arena_temp = 4096, pos_temp = 10\<rparr>"
    by (simp add: region_4k_def ArenaScratchBegin_def)
  have r: "run 4096 (region_4k 10, []) [Push 20, Pop 5, Begin, Push 100, Clear, Push 3] =
     Inr (region_4k 3, [\<lparr>arena_temp = 4096, pos_temp = 25\<rparr>])"
    by (simp add: region_4k_def ArenaPush_def ArenaPop_def ArenaClear_def
        ArenaScratchBegin_def NULL_def)
  have n: "(4096 :: addr) \<noteq> NULL" by (simp add: NULL_def)
  from ArenaScratchEnd_restores
    [of "region_4k 10" 4096 "\<lparr>base = 4120, size_arena = 4072, pos = 10\<rparr>" _ "[]" _
      "region_4k 3" "[\<lparr>arena_temp = 4096, pos_temp = 25\<rparr>]", OF _ n b r] b r n
  show ?thesis by (simp add: region_4k_def)
qed

section \<open>Reservation\<close>

lemma and_not_mask_push_drop:
  "w AND NOT (mask k) = push_bit k (drop_bit k w)" for w :: "'a::len word"
  by (rule bit_eqI) (auto simp: bit_simps)

lemma unat_and_not_mask:
  "unat (w AND NOT (mask k)) = (unat w div 2 ^ k) * 2 ^ k" for w :: u64
proof -
  have "unat (push_bit k (drop_bit k w)) = take_bit 64 (push_bit k (drop_bit k (unat w)))"
    by (simp add: unsigned_push_bit_eq unat_drop_bit_eq)
  also have "\<dots> = push_bit k (drop_bit k (unat w))"
  proof (rule take_bit_nat_eq_self)
    have "push_bit k (drop_bit k (unat w)) \<le> unat w"
      by (simp add: push_bit_eq_mult drop_bit_eq_div)
    also have "unat w < 2 ^ 64" using unsigned_less [of w] by simp
    finally show "push_bit k (drop_bit k (unat w)) < 2 ^ 64" .
  qed
  finally show ?thesis
    by (simp add: and_not_mask_push_drop push_bit_eq_mult drop_bit_eq_div)
qed

lemma unat_pow2:
  assumes "k < 64"
  shows "unat (2 ^ k :: u64) = 2 ^ k"
proof -
  have "(2 ^ k :: u64) = word_of_nat (2 ^ k)" by simp
  then have "unat (2 ^ k :: u64) = 2 ^ k mod 2 ^ 64"
    by (simp only: unat_of_nat) simp
  also have "\<dots> = 2 ^ k"
  proof (rule mod_less)
    show "(2::nat) ^ k < 2 ^ 64"
      using assms by (rule power_strict_increasing) simp
  qed
  finally show ?thesis .
qed

lemma unat_total_size:
  fixes sz :: u64
  assumes k: "k < 64" and sz: "unat sz + 24 < 2 ^ 64"
  shows "unat ((sz + 24 + 2 ^ k - 1) AND NOT (2 ^ k - 1)) =
           ((unat sz + 24 + (2 ^ k - 1)) mod 2 ^ 64) div 2 ^ k * 2 ^ k"
proof -
  have m: "(2 ^ k - 1 :: u64) = mask k" by (simp add: mask_eq_decr_exp)
  have "(2 ^ k :: u64) \<noteq> 0"
    using unat_pow2 [OF k] by (metis power_not_zero unat_0 zero_neq_numeral)
  then have um: "unat (mask k :: u64) = 2 ^ k - 1"
    by (simp add: m [symmetric] unat_minus_one unat_pow2 [OF k])
  have e: "sz + 24 + 2 ^ k - 1 = sz + 24 + mask k" by (simp add: m [symmetric])
  have "unat (sz + 24) = unat sz + 24"
    using sz by (simp add: unat_word_ariths)
  then have "unat (sz + 24 + mask k) = (unat sz + 24 + (2 ^ k - 1)) mod 2 ^ 64"
    by (simp add: unat_word_ariths(1) [of "sz + 24" "mask k"] um)
  then show ?thesis
    by (simp only: e m unat_and_not_mask)
qed

lemma round_up_bounds:
  fixes n P :: nat
  assumes "0 < P"
  shows "n \<le> (n + (P - 1)) div P * P \<and> (n + (P - 1)) div P * P < n + P"
proof -
  define q where "q = (n + (P - 1)) div P"
  have 1: "q * P \<le> n + (P - 1)" by (simp add: q_def)
  have 2: "n + (P - 1) < q * P + P"
    using assms by (metis q_def add.commute dividend_less_times_div mult.commute)
  from 1 2 assms show ?thesis unfolding q_def [symmetric] by arith
qed


text \<open>
  C8. On a system whose page size is a power of two: \<^verbatim>\<open>ArenaAlloc(0)\<close> returns
  \<^verbatim>\<open>NULL\<close> with no system call made; so does a request whose sum with
  \<^verbatim>\<open>sizeof(Arena)\<close> does not fit 64 bits; and when \<^verbatim>\<open>ArenaAlloc(R)\<close> returns a region,
  its cursor is 0 and its capacity plus \<^verbatim>\<open>sizeof(Arena)\<close> is the least multiple of the
  page size that holds \<^verbatim>\<open>R + sizeof(Arena)\<close>, so the capacity is at least \<open>R\<close>.
\<close>

theorem ArenaAlloc_capacity:
  assumes page: "sysconf_PAGESIZE sys = 2 ^ k" and k: "k < 63"
  shows "ArenaAlloc sys h 0 = ((NULL, h), []) \<and>
         (2 ^ 64 \<le> unat R + unat sizeof_Arena \<longrightarrow> ArenaAlloc sys h R = ((NULL, h), [])) \<and>
         (ArenaAlloc sys h R = ((p, h'), calls) \<and> p \<noteq> NULL \<longrightarrow>
            (\<exists>a n. arenas h' p = Some a \<and> base a = p + sizeof_Arena \<and> pos a = 0 \<and>
                   unat R \<le> unat (size_arena a) \<and>
                   unat (size_arena a) + unat sizeof_Arena = n * 2 ^ k \<and>
                   unat R + unat sizeof_Arena \<le> n * 2 ^ k \<and>
                   n * 2 ^ k < unat R + unat sizeof_Arena + 2 ^ k))"
proof (intro conjI impI)
  show "ArenaAlloc sys h 0 = ((NULL, h), [])"
    by (simp add: ArenaAlloc_def)
next
  assume ov: "2 ^ 64 \<le> unat R + unat sizeof_Arena"
  have "unat (SIZE_MAX - sizeof_Arena) = 2 ^ 64 - 25"
    by (simp add: SIZE_MAX_def sizeof_Arena_def)
  with ov have "unat (SIZE_MAX - sizeof_Arena) < unat R"
    by (simp add: sizeof_Arena_def)
  then have "SIZE_MAX - sizeof_Arena < R"
    by (simp add: word_less_nat_alt)
  then show "ArenaAlloc sys h R = ((NULL, h), [])"
    by (simp add: ArenaAlloc_def)
next
  assume ok: "ArenaAlloc sys h R = ((p, h'), calls) \<and> p \<noteq> NULL"
  define total where "total = (R + 24 + 2 ^ k - 1) AND NOT (2 ^ k - 1 :: u64)"
  have k64: "k < 64" using k by simp
  have ps: "(2 ^ k :: u64) \<noteq> - 1"
  proof
    assume "(2 ^ k :: u64) = - 1"
    moreover have "(- 1 :: u64) = 18446744073709551615" by simp
    ultimately have "unat (2 ^ k :: u64) = unat (18446744073709551615 :: u64)" by simp
    then have "(2::nat) ^ k = 2 ^ 64 - 1" by (simp add: unat_pow2 [OF k64])
    moreover have "(2::nat) ^ k < 2 ^ 63"
      using k by (rule power_strict_increasing) simp
    ultimately show False by simp
  qed
  from ok have R0: "R \<noteq> 0" and Rle: "\<not> SIZE_MAX - sizeof_Arena < R"
    by (auto simp: ArenaAlloc_def NULL_def split: if_splits)
  from Rle have "unat R \<le> unat (SIZE_MAX - sizeof_Arena)"
    by (simp add: word_less_nat_alt)
  then have Rb: "unat R + 24 < 2 ^ 64"
    by (simp add: SIZE_MAX_def sizeof_Arena_def)
  from ok R0 Rle ps page have mm: "mmap sys total = Some p"
    and h': "h' = \<lparr>arenas = (arenas h)(p \<mapsto> \<lparr>base = p + sizeof_Arena,
                        size_arena = total - sizeof_Arena, pos = 0\<rparr>),
                   mem = (\<lambda>x. if x - (p + sizeof_Arena) < total - sizeof_Arena then Some 0 else mem h x)\<rparr>"
    by (auto simp: ArenaAlloc_def Let_def total_def sizeof_Arena_def split: option.splits)
  from mm have t0: "total \<noteq> 0"
    by (auto simp: mmap_def split: if_splits)
  have ut: "unat total = ((unat R + 24 + (2 ^ k - 1)) mod 2 ^ 64) div 2 ^ k * 2 ^ k"
    unfolding total_def by (rule unat_total_size [OF k64 Rb])
  have nowrap: "unat R + 24 + (2 ^ k - 1) < 2 ^ 64"
  proof (rule ccontr)
    assume "\<not> unat R + 24 + (2 ^ k - 1) < 2 ^ 64"
    then have ge: "2 ^ 64 \<le> unat R + 24 + (2 ^ k - 1)" by simp
    have "unat R + 24 + (2 ^ k - 1) < 2 ^ 64 + 2 ^ 64"
      using Rb power_strict_increasing [of k 64 "2::nat"] k64 by simp
    with ge have "(unat R + 24 + (2 ^ k - 1)) mod 2 ^ 64 = unat R + 24 + (2 ^ k - 1) - 2 ^ 64"
      by (simp add: mod_if)
    also have "\<dots> < 2 ^ k" using Rb ge by linarith
    finally have "unat total = 0" using ut by simp
    then show False using t0 by (simp add: unat_eq_0)
  qed
  define n where "n = (unat R + 24 + (2 ^ k - 1)) div 2 ^ k"
  from nowrap ut have utn: "unat total = n * 2 ^ k"
    by (simp add: n_def)
  from round_up_bounds [of "2 ^ k" "unat R + 24"]
  have lo: "unat R + 24 \<le> n * 2 ^ k" and hi: "n * 2 ^ k < unat R + 24 + 2 ^ k"
    by (simp_all add: n_def)
  from lo utn have "unat (24 :: u64) \<le> unat total" by simp
  then have "(24 :: u64) \<le> total" by (simp add: word_le_nat_alt)
  then have us: "unat (total - 24) = unat total - 24"
    by (simp add: unat_sub)
  show "\<exists>a n. arenas h' p = Some a \<and> base a = p + sizeof_Arena \<and> pos a = 0 \<and>
                   unat R \<le> unat (size_arena a) \<and>
                   unat (size_arena a) + unat sizeof_Arena = n * 2 ^ k \<and>
                   unat R + unat sizeof_Arena \<le> n * 2 ^ k \<and>
                   n * 2 ^ k < unat R + unat sizeof_Arena + 2 ^ k"
    using lo hi utn us
    by (intro exI [of _ "\<lparr>base = p + sizeof_Arena, size_arena = total - sizeof_Arena, pos = 0\<rparr>"]
          exI [of _ n]) (simp add: h' sizeof_Arena_def)
qed

theorem ArenaAlloc_capacity_witness:
  "sysconf_PAGESIZE os_4k = 2 ^ 12 \<and> (12::nat) < 63 \<and>
   ArenaAlloc os_4k heap_empty 64 =
     ((4096, \<lparr>arenas = [4096 \<mapsto> \<lparr>base = 4120, size_arena = 4072, pos = 0\<rparr>],
              mem = (\<lambda>x. if x - 4120 < 4072 then Some 0 else None)\<rparr>),
      [Sysconf_PAGESIZE, Mmap 4096]) \<and>
   (4096 :: addr) \<noteq> NULL \<and>
   ArenaAlloc os_4k heap_empty 0 = ((NULL, heap_empty), []) \<and>
   (\<exists>a n. arenas \<lparr>arenas = [4096 \<mapsto> \<lparr>base = 4120, size_arena = 4072, pos = 0\<rparr>],
              mem = (\<lambda>x. if x - 4120 < 4072 then Some 0 else None)\<rparr> 4096 = Some a \<and>
          base a = 4096 + sizeof_Arena \<and> pos a = 0 \<and> unat (64 :: u64) \<le> unat (size_arena a) \<and>
          unat (size_arena a) + unat sizeof_Arena = n * 2 ^ 12 \<and>
          unat (64 :: u64) + unat sizeof_Arena \<le> n * 2 ^ 12 \<and>
          n * 2 ^ 12 < unat (64 :: u64) + unat sizeof_Arena + 2 ^ 12)"
proof -
  have p: "sysconf_PAGESIZE os_4k = 2 ^ 12" by (simp add: os_4k_def)
  have k: "(12::nat) < 63" by simp
  have run: "ArenaAlloc os_4k heap_empty 64 =
     ((4096, \<lparr>arenas = [4096 \<mapsto> \<lparr>base = 4120, size_arena = 4072, pos = 0\<rparr>],
              mem = (\<lambda>x. if x - 4120 < 4072 then Some 0 else None)\<rparr>),
      [Sysconf_PAGESIZE, Mmap 4096])"
    by (simp add: ArenaAlloc_def os_4k_def heap_empty_def mmap_def SIZE_MAX_def
        sizeof_Arena_def Let_def cong: if_cong)
  have nn: "(4096 :: addr) \<noteq> NULL" by (simp add: NULL_def)
  from ArenaAlloc_capacity [OF p k, of heap_empty 64 4096
      "\<lparr>arenas = [4096 \<mapsto> \<lparr>base = 4120, size_arena = 4072, pos = 0\<rparr>],
        mem = (\<lambda>x. if x - 4120 < 4072 then Some 0 else None)\<rparr>"
      "[Sysconf_PAGESIZE, Mmap 4096]"]
    p run nn
  show ?thesis by simp
qed

end
